theory Spec2Isabelle
  imports
    Complex_Main
    "HOL-Library.Char_ord"
    "HOL-Library.List_Lexorder"
    "HOL-Library.Sublist"
    "HOL-Library.Multiset"
begin

section \<open>Python values and errors\<close>

text \<open>
  Python floats are idealised as the real numbers: the models below compute in exact
  arithmetic. Python strings are compared code point by code point; on \<^typ>\<open>string\<close>
  this is the lexicographic order of \<^theory_text>\<open>List_Lexorder\<close> over the character
  order of \<^theory_text>\<open>Char_ord\<close>. A dictionary whose iteration order matters is an
  association list in insertion order.
\<close>

datatype py_error = IndexError | ZeroDivisionError

definition py_div :: "real \<Rightarrow> real \<Rightarrow> py_error + real" where
  \<comment> \<open>\<^verbatim>\<open>a / b\<close> on Python numbers raises when the divisor is zero.\<close>
  "py_div a b = (if b = 0 then Inl ZeroDivisionError else Inr (a / b))"

definition py_last :: "'a list \<Rightarrow> py_error + 'a" where
  \<comment> \<open>\<^verbatim>\<open>xs[-1]\<close>\<close>
  "py_last xs = (if xs = [] then Inl IndexError else Inr (last xs))"

definition py_slice_to :: "'a list \<Rightarrow> int \<Rightarrow> 'a list" where
  \<comment> \<open>\<^verbatim>\<open>xs[:k]\<close>: a negative bound counts from the end of the list.\<close>
  "py_slice_to xs k =
     (if 0 \<le> k then take (nat k) xs else take (nat (int (length xs) + k)) xs)"

definition endswith :: "string \<Rightarrow> string \<Rightarrow> bool" where
  \<comment> \<open>\<^verbatim>\<open>s.endswith(t)\<close>\<close>
  "endswith s t = suffix t s"

section \<open>The facts document (\<^verbatim>\<open>financial_data_client.py\<close>)\<close>

text \<open>
  One raw observation of a unit sub-series. The source reads every field with
  \<^verbatim>\<open>value.get(...)\<close>, so each field may be missing.
\<close>

record raw_obs =
  obs_val :: "real option"
  obs_end :: "string option"
  obs_start :: "string option"
  obs_form :: "string option"
  obs_filed :: "string option"
  obs_accn :: "string option"

text \<open>
  A concept entry of the \<^verbatim>\<open>us-gaap\<close> taxonomy: an optional description and an
  optional mapping from unit label to observations, in insertion order. The entry with
  neither key is the empty dictionary.
\<close>

record concept =
  description :: "string option"
  units :: "(string \<times> raw_obs list) list option"

record formatted_value =
  fv_value :: "real option"
  fv_end_date :: "string option"
  fv_start_date :: "string option"
  fv_form :: "string option"
  fv_filed :: "string option"
  fv_accession :: "string option"

record line_item =
  li_description :: string
  li_unit :: string
  li_values :: "formatted_value list"

subsection \<open>\<^verbatim>\<open>_extract_concept\<close>\<close>

fun extract_concept :: "(string \<rightharpoonup> concept) \<Rightarrow> string list \<Rightarrow> concept option" where
  "extract_concept us_gaap [] = None"
| "extract_concept us_gaap (concept_name # concept_names) =
     (if concept_name \<in> dom us_gaap then us_gaap concept_name
      else extract_concept us_gaap concept_names)"

subsection \<open>\<^verbatim>\<open>_filter_by_period\<close>\<close>

definition concept_is_empty :: "concept \<Rightarrow> bool" where
  \<comment> \<open>\<^verbatim>\<open>not item_data\<close> on a dictionary: it has no key.\<close>
  "concept_is_empty c = (description c = None \<and> units c = None)"

definition units_of :: "concept \<Rightarrow> (string \<times> raw_obs list) list" where
  \<comment> \<open>\<^verbatim>\<open>item_data.get("units", {})\<close>\<close>
  "units_of c = (case units c of None \<Rightarrow> [] | Some us \<Rightarrow> us)"

definition get_usd :: "(string \<times> raw_obs list) list \<Rightarrow> raw_obs list" where
  \<comment> \<open>\<^verbatim>\<open>units.get("USD", [])\<close>\<close>
  "get_usd us = (case map_of us ''USD'' of None \<Rightarrow> [] | Some vs \<Rightarrow> vs)"

text \<open>
  The loop over \<^verbatim>\<open>units.items()\<close> that runs when the \<^verbatim>\<open>USD\<close> series is missing
  or empty: the first unit whose label ends in \<^verbatim>\<open>USD\<close> or is \<^verbatim>\<open>shares\<close> is taken
  and the loop stops.
\<close>

fun try_other_units :: "(string \<times> raw_obs list) list \<Rightarrow> raw_obs list \<Rightarrow> raw_obs list" where
  "try_other_units [] usd_data = usd_data"
| "try_other_units ((unit, vals) # rest) usd_data =
     (if endswith unit ''USD'' \<or> unit = ''shares'' then vals
      else try_other_units rest usd_data)"

definition select_unit_data :: "(string \<times> raw_obs list) list \<Rightarrow> raw_obs list" where
  "select_unit_data us =
     (let usd_data = get_usd us
      in if usd_data = [] then try_other_units us usd_data else usd_data)"

definition form_of :: "raw_obs \<Rightarrow> string" where
  \<comment> \<open>\<^verbatim>\<open>value.get("form", "")\<close>\<close>
  "form_of v = (case obs_form v of None \<Rightarrow> '''' | Some f \<Rightarrow> f)"

text \<open>The loop that appends the observations of the requested form family.\<close>

fun filter_forms :: "string \<Rightarrow> raw_obs list \<Rightarrow> raw_obs list" where
  "filter_forms period [] = []"
| "filter_forms period (v # vs) =
     (let form = form_of v
      in if period = ''annual'' \<and> form \<in> set [''10-K'', ''20-F'', ''40-F'']
         then v # filter_forms period vs
         else if period = ''quarterly'' \<and> form \<in> set [''10-Q'']
         then v # filter_forms period vs
         else filter_forms period vs)"

definition end_key :: "raw_obs \<Rightarrow> string" where
  \<comment> \<open>the sort key \<^verbatim>\<open>x.get("end", "")\<close>\<close>
  "end_key v = (case obs_end v of None \<Rightarrow> '''' | Some e \<Rightarrow> e)"

definition sort_by_end_desc :: "raw_obs list \<Rightarrow> raw_obs list" where
  \<comment> \<open>\<^verbatim>\<open>list.sort(key=..., reverse=True)\<close>: Python's sort is stable, also when
      reversed, so observations with equal keys keep their relative order.\<close>
  "sort_by_end_desc vs = rev (sort_key end_key (rev vs))"

definition limit_years :: "string \<Rightarrow> int \<Rightarrow> raw_obs list \<Rightarrow> raw_obs list" where
  "limit_years period years vs =
     (if period = ''annual'' then py_slice_to vs years else py_slice_to vs (years * 4))"

definition format_value :: "raw_obs \<Rightarrow> formatted_value" where
  "format_value v =
     \<lparr> fv_value = obs_val v, fv_end_date = obs_end v, fv_start_date = obs_start v,
       fv_form = obs_form v, fv_filed = obs_filed v, fv_accession = obs_accn v \<rparr>"

definition normalize_values :: "string \<Rightarrow> int \<Rightarrow> raw_obs list \<Rightarrow> formatted_value list" where
  \<comment> \<open>filter by form, sort by end date, limit, format\<close>
  "normalize_values period years usd_data =
     map format_value (limit_years period years (sort_by_end_desc (filter_forms period usd_data)))"

definition unit_label :: "(string \<times> raw_obs list) list \<Rightarrow> string" where
  \<comment> \<open>\<^verbatim>\<open>"USD" if "USD" in units else list(units.keys())[0] if units else "unknown"\<close>\<close>
  "unit_label us =
     (if ''USD'' \<in> fst ` set us then ''USD''
      else (case us of [] \<Rightarrow> ''unknown'' | (unit, vals) # rest \<Rightarrow> unit))"

definition filter_item :: "string \<Rightarrow> concept option \<Rightarrow> string \<Rightarrow> int \<Rightarrow> line_item option" where
  \<comment> \<open>one iteration of the loop over \<^verbatim>\<open>data.items()\<close>\<close>
  "filter_item item_name item_data period years =
     (case item_data of
        None \<Rightarrow> None
      | Some c \<Rightarrow>
          if concept_is_empty c then None
          else
            (let us = units_of c; usd_data = select_unit_data us
             in if usd_data = [] then None
                else Some \<lparr> li_description =
                              (case description c of None \<Rightarrow> item_name | Some d \<Rightarrow> d),
                            li_unit = unit_label us,
                            li_values = normalize_values period years usd_data \<rparr>))"

definition filter_by_period ::
  "(string \<times> concept option) list \<Rightarrow> string \<Rightarrow> int \<Rightarrow> (string \<times> line_item option) list" where
  "filter_by_period data period years =
     map (\<lambda>(item_name, item_data). (item_name, filter_item item_name item_data period years)) data"

definition fv_end_key :: "formatted_value \<Rightarrow> string" where
  \<comment> \<open>the end date of a formatted value, read as the sort key reads it\<close>
  "fv_end_key v = (case fv_end_date v of None \<Rightarrow> '''' | Some e \<Rightarrow> e)"

section \<open>Metrics and valuation (\<^verbatim>\<open>shared/financial_analysis.py\<close>)\<close>

subsection \<open>\<^verbatim>\<open>FinancialMetrics.calculate_altman_z_score\<close>\<close>

definition calculate_altman_z_score ::
  "real \<Rightarrow> real \<Rightarrow> real \<Rightarrow> real \<Rightarrow> real \<Rightarrow> real \<Rightarrow> real \<Rightarrow> real \<times> string" where
  "calculate_altman_z_score working_capital total_assets retained_earnings ebit
       market_value_equity total_liabilities sales =
     (if total_assets = 0 then (0, ''Cannot calculate - Invalid data'')
      else
        (let A = working_capital / total_assets;
             B = retained_earnings / total_assets;
             C = ebit / total_assets;
             D = (if total_liabilities > 0 then market_value_equity / total_liabilities else 0);
             E = sales / total_assets;
             z_score = 1.2 * A + 1.4 * B + 3.3 * C + 0.6 * D + 1.0 * E;
             interpretation =
               (if z_score > 2.99 then ''Safe Zone - Low bankruptcy risk''
                else if z_score > 1.81 then ''Grey Zone - Moderate bankruptcy risk''
                else ''Distress Zone - High bankruptcy risk'')
         in (z_score, interpretation)))"

subsection \<open>\<^verbatim>\<open>FinancialMetrics.calculate_piotroski_f_score\<close>\<close>

definition fin_get :: "(string \<rightharpoonup> real) \<Rightarrow> string \<Rightarrow> real" where
  \<comment> \<open>\<^verbatim>\<open>financials.get(key, 0)\<close>\<close>
  "fin_get financials key = (case financials key of None \<Rightarrow> 0 | Some v \<Rightarrow> v)"

text \<open>
  One \<^verbatim>\<open>if\<close>/\<^verbatim>\<open>else\<close> block of the function: it stores the flag under the
  criterion's name and adds one point when the test holds. The state is the pair of the
  \<^verbatim>\<open>criteria\<close> dictionary (in insertion order) and the running \<^verbatim>\<open>score\<close>.
\<close>

definition record_criterion ::
  "string \<Rightarrow> bool \<Rightarrow> (string \<times> bool) list \<times> int \<Rightarrow> (string \<times> bool) list \<times> int" where
  "record_criterion name holds st =
     (case st of (criteria, score) \<Rightarrow>
        if holds then (criteria @ [(name, True)], score + 1)
        else (criteria @ [(name, False)], score))"

definition calculate_piotroski_f_score ::
  "(string \<rightharpoonup> real) \<Rightarrow> int \<times> (string \<times> bool) list" where
  "calculate_piotroski_f_score financials =
     (let st0 = ([], 0);
          st1 = record_criterion ''positive_roa'' (fin_get financials ''roa'' > 0) st0;
          st2 = record_criterion ''positive_ocf''
                  (fin_get financials ''operating_cash_flow'' > 0) st1;
          st3 = record_criterion ''increasing_roa'' (fin_get financials ''roa_change'' > 0) st2;
          st4 = record_criterion ''quality_earnings''
                  (fin_get financials ''operating_cash_flow'' > fin_get financials ''net_income'')
                  st3;
          st5 = record_criterion ''decreasing_leverage''
                  (fin_get financials ''leverage_change'' < 0) st4;
          st6 = record_criterion ''increasing_liquidity''
                  (fin_get financials ''current_ratio_change'' > 0) st5;
          st7 = record_criterion ''no_dilution'' (fin_get financials ''shares_change'' \<le> 0) st6;
          st8 = record_criterion ''increasing_margin''
                  (fin_get financials ''gross_margin_change'' > 0) st7;
          st9 = record_criterion ''increasing_efficiency''
                  (fin_get financials ''asset_turnover_change'' > 0) st8
      in (snd st9, fst st9))"

subsection \<open>\<^verbatim>\<open>DCFModel\<close>\<close>

definition calculate_terminal_value :: "real \<Rightarrow> real \<Rightarrow> real \<Rightarrow> py_error + real" where
  "calculate_terminal_value final_fcf terminal_growth wacc =
     (if wacc \<le> terminal_growth then Inr 0
      else py_div (final_fcf * (1 + terminal_growth)) (wacc - terminal_growth))"

record dcf_result =
  intrinsic_value_per_share :: real
  enterprise_value :: real
  equity_value :: real
  pv_fcfs :: real
  pv_terminal :: real

text \<open>
  \<^verbatim>\<open>sum(fcf / (1 + wacc) ** (i + 1) for i, fcf in enumerate(fcf_projections))\<close>:
  the terms are computed and added from left to right, and the first division that raises
  ends the sum.
\<close>

fun sum_discounted :: "real \<Rightarrow> nat \<Rightarrow> real list \<Rightarrow> real \<Rightarrow> py_error + real" where
  "sum_discounted wacc i [] acc = Inr acc"
| "sum_discounted wacc i (fcf # rest) acc =
     (case py_div fcf ((1 + wacc) ^ (i + 1)) of
        Inl e \<Rightarrow> Inl e
      | Inr term \<Rightarrow> sum_discounted wacc (i + 1) rest (acc + term))"

definition calculate_dcf_value ::
  "real list \<Rightarrow> real \<Rightarrow> real \<Rightarrow> real \<Rightarrow> real \<Rightarrow> py_error + dcf_result" where
  "calculate_dcf_value fcf_projections terminal_growth wacc net_debt shares_outstanding =
     (case sum_discounted wacc 0 fcf_projections 0 of
        Inl e \<Rightarrow> Inl e
      | Inr pv \<Rightarrow>
     (case py_last fcf_projections of
        Inl e \<Rightarrow> Inl e
      | Inr terminal_fcf \<Rightarrow>
     (case calculate_terminal_value terminal_fcf terminal_growth wacc of
        Inl e \<Rightarrow> Inl e
      | Inr terminal_value \<Rightarrow>
     (case py_div terminal_value ((1 + wacc) ^ length fcf_projections) of
        Inl e \<Rightarrow> Inl e
      | Inr pvt \<Rightarrow>
          (let ev = pv + pvt;
               eq = ev - net_debt
           in (case (if shares_outstanding > 0 then py_div eq shares_outstanding else Inr 0) of
                 Inl e \<Rightarrow> Inl e
               | Inr per_share \<Rightarrow>
                   Inr \<lparr> intrinsic_value_per_share = per_share, enterprise_value = ev,
                         equity_value = eq, pv_fcfs = pv, pv_terminal = pvt \<rparr>))))))"

subsection \<open>\<^verbatim>\<open>DCFModel.monte_carlo_dcf\<close>\<close>












section \<open>Closed forms and example data\<close>

definition c1_concept :: "string \<Rightarrow> concept" where
  "c1_concept d = \<lparr> description = Some d, units = Some [] \<rparr>"

definition c1_facts :: "string \<rightharpoonup> concept" where
  "c1_facts = [''SalesRevenueNet'' \<mapsto> c1_concept ''net sales'',
               ''RevenueFromContractWithCustomerExcludingAssessedTax'' \<mapsto> c1_concept ''contract revenue'']"

definition ex_obs :: "real \<Rightarrow> string \<Rightarrow> string \<Rightarrow> string \<Rightarrow> string \<Rightarrow> raw_obs" where
  "ex_obs v e f filed accn =
     \<lparr> obs_val = Some v, obs_end = Some e, obs_start = None, obs_form = Some f,
       obs_filed = Some filed, obs_accn = Some accn \<rparr>"

definition ex_fv :: "real \<Rightarrow> string \<Rightarrow> string \<Rightarrow> string \<Rightarrow> string \<Rightarrow> formatted_value" where
  "ex_fv v e f filed accn =
     \<lparr> fv_value = Some v, fv_end_date = Some e, fv_start_date = None, fv_form = Some f,
       fv_filed = Some filed, fv_accession = Some accn \<rparr>"

definition ex_series :: "raw_obs list" where
  "ex_series =
     [ex_obs 100 ''2021-12-31'' ''10-K'' ''2022-02-01'' ''a1'',
      ex_obs 30 ''2022-03-31'' ''10-Q'' ''2022-05-01'' ''a2'',
      ex_obs 121 ''2023-12-31'' ''10-K'' ''2024-02-01'' ''a4'',
      ex_obs 110 ''2022-12-31'' ''10-K'' ''2023-02-01'' ''a3'']"

definition ex_concept :: concept where
  "ex_concept = \<lparr> description = Some ''Revenues'', units = Some [(''USD'', ex_series)] \<rparr>"

definition tie_series :: "raw_obs list" where
  "tie_series =
     [ex_obs 100 ''2023-12-31'' ''10-K'' ''2024-02-01'' ''a1'',
      ex_obs 105 ''2023-12-31'' ''10-K'' ''2024-03-01'' ''a2'']"

definition usd_concept :: "raw_obs list \<Rightarrow> concept" where
  "usd_concept vs = \<lparr> description = Some ''Revenues'', units = Some [(''USD'', vs)] \<rparr>"

definition eur_concept :: concept where
  "eur_concept = \<lparr> description = Some ''Revenues'', units = Some [(''EUR'', ex_series)] \<rparr>"

definition shares_concept :: concept where
  "shares_concept =
     \<lparr> description = Some ''Shares outstanding'',
       units = Some [(''pure'', []), (''shares'', tie_series)] \<rparr>"

definition currency_like :: "string \<times> raw_obs list \<Rightarrow> bool" where
  \<comment> \<open>the test of the loop over the units, on an entry of the mapping\<close>
  "currency_like entry = (endswith (fst entry) ''USD'' \<or> fst entry = ''shares'')"

definition zone :: "string \<Rightarrow> string \<Rightarrow> bool" where
  \<comment> \<open>the interpretation string names the zone: it starts with the zone's label\<close>
  "zone label interpretation = prefix label interpretation"

definition criteria_names :: "string list" where
  "criteria_names =
     [''positive_roa'', ''positive_ocf'', ''increasing_roa'', ''quality_earnings'',
      ''decreasing_leverage'', ''increasing_liquidity'', ''no_dilution'',
      ''increasing_margin'', ''increasing_efficiency'']"

definition piotroski_tests :: "(string \<rightharpoonup> real) \<Rightarrow> bool list" where
  \<comment> \<open>the nine tests, in the order of the source\<close>
  "piotroski_tests financials =
     [fin_get financials ''roa'' > 0,
      fin_get financials ''operating_cash_flow'' > 0,
      fin_get financials ''roa_change'' > 0,
      fin_get financials ''operating_cash_flow'' > fin_get financials ''net_income'',
      fin_get financials ''leverage_change'' < 0,
      fin_get financials ''current_ratio_change'' > 0,
      fin_get financials ''shares_change'' \<le> 0,
      fin_get financials ''gross_margin_change'' > 0,
      fin_get financials ''asset_turnover_change'' > 0]"

definition discounted_sum :: "real \<Rightarrow> real list \<Rightarrow> real" where
  \<comment> \<open>the present value of the projected cash flows, in closed form\<close>
  "discounted_sum wacc fcfs = (\<Sum>k<length fcfs. fcfs ! k / (1 + wacc) ^ (k + 1))"

definition discounted_terminal :: "real \<Rightarrow> real \<Rightarrow> real list \<Rightarrow> real" where
  \<comment> \<open>the present value of the terminal value, in closed form\<close>
  "discounted_terminal wacc terminal_growth fcfs =
     (if wacc \<le> terminal_growth then 0
      else last fcfs * (1 + terminal_growth) / (wacc - terminal_growth))
     / (1 + wacc) ^ length fcfs"


section \<open>Properties\<close>

subsection \<open>The concept resolver\<close>

lemma extract_concept_absent:
  "\<forall>m\<in>set ns. m \<notin> dom us_gaap \<Longrightarrow> extract_concept us_gaap ns = None"
  by (induction ns) auto

lemma extract_concept_skip:
  "\<forall>m\<in>set pre. m \<notin> dom us_gaap \<Longrightarrow>
   extract_concept us_gaap (pre @ ns) = extract_concept us_gaap ns"
  by (induction pre) auto

text \<open>
  Claim C1. When no tag of a prefix \<open>pre\<close> of the candidate list is a key of the facts
  collection, the resolver returns absence on \<open>pre\<close>, and for every tag \<open>n\<close> that is
  a key it returns the concept stored under \<open>n\<close> on \<open>pre @ n # post\<close>, whatever
  candidates follow in \<open>post\<close> and whether or not they are present too.
\<close>

theorem extract_concept_first_present:
  assumes "\<forall>m\<in>set pre. m \<notin> dom us_gaap"
  shows "extract_concept us_gaap pre = None \<and>
         (\<forall>n post. n \<in> dom us_gaap \<longrightarrow>
            extract_concept us_gaap (pre @ n # post) = us_gaap n \<and> us_gaap n \<noteq> None)"
  using assms by (auto simp: extract_concept_absent extract_concept_skip)

text \<open>
  Claim C1 at a facts collection holding the second and the third candidate of the
  revenue tags: the second one is returned.
\<close>

theorem extract_concept_first_present_witness:
  "''Revenues'' \<notin> dom c1_facts \<and>
   ''RevenueFromContractWithCustomerExcludingAssessedTax'' \<in> dom c1_facts \<and>
   ''SalesRevenueNet'' \<in> dom c1_facts \<and>
   extract_concept c1_facts [''Revenues''] = None \<and>
   extract_concept c1_facts
     [''Revenues'', ''RevenueFromContractWithCustomerExcludingAssessedTax'', ''SalesRevenueNet'']
     = Some (c1_concept ''contract revenue'')"
proof -
  have h: "\<forall>m\<in>set [''Revenues'']. m \<notin> dom c1_facts"
    by (simp add: c1_facts_def)
  have p: "''RevenueFromContractWithCustomerExcludingAssessedTax'' \<in> dom c1_facts"
    by (simp add: c1_facts_def)
  from extract_concept_first_present [OF h] p
  have "extract_concept c1_facts [''Revenues''] = None \<and>
        extract_concept c1_facts ([''Revenues''] @
          ''RevenueFromContractWithCustomerExcludingAssessedTax'' # [''SalesRevenueNet''])
        = c1_facts ''RevenueFromContractWithCustomerExcludingAssessedTax''"
    by blast
  moreover have "c1_facts ''RevenueFromContractWithCustomerExcludingAssessedTax'' = Some (c1_concept ''contract revenue'')"
    by (simp add: c1_facts_def)
  moreover have "''SalesRevenueNet'' \<in> dom c1_facts"
    by (simp add: c1_facts_def)
  ultimately show ?thesis using h p by simp
qed

subsection \<open>Period normalization: order and horizon\<close>

lemma filter_forms_annual:
  "filter_forms ''annual'' vs = filter (\<lambda>v. form_of v \<in> {''10-K'', ''20-F'', ''40-F''}) vs"
  by (induction vs) (simp_all add: Let_def)

lemma filter_forms_quarterly:
  "filter_forms ''quarterly'' vs = filter (\<lambda>v. form_of v = ''10-Q'') vs"
  by (induction vs) (simp_all add: Let_def)

lemma filter_forms_filter:
  "filter_forms period vs =
     filter (\<lambda>v. period = ''annual'' \<and> form_of v \<in> {''10-K'', ''20-F'', ''40-F''} \<or>
                  period = ''quarterly'' \<and> form_of v = ''10-Q'') vs"
  by (induction vs) (auto simp: Let_def)

lemma set_sort_by_end_desc: "set (sort_by_end_desc vs) = set vs"
  by (simp add: sort_by_end_desc_def)

lemma mset_sort_by_end_desc: "mset (sort_by_end_desc vs) = mset vs"
  by (simp add: sort_by_end_desc_def)

lemma sorted_sort_by_end_desc: "sorted (rev (map end_key (sort_by_end_desc vs)))"
  by (simp add: sort_by_end_desc_def rev_map)

lemma set_py_slice_to: "set (py_slice_to xs k) \<subseteq> set xs"
  by (auto simp: py_slice_to_def dest: in_set_takeD)

lemma set_limit_years: "set (limit_years period years vs) \<subseteq> set vs"
  by (simp add: limit_years_def set_py_slice_to)

lemma py_slice_to_take: "\<exists>n. py_slice_to xs k = take n xs"
  by (auto simp: py_slice_to_def)

lemma limit_years_take: "\<exists>n. limit_years period years vs = take n vs"
  using py_slice_to_take by (auto simp: limit_years_def)

lemma length_py_slice_to: "0 \<le> k \<Longrightarrow> int (length (py_slice_to xs k)) \<le> k"
  by (simp add: py_slice_to_def)

lemma fv_end_key_format [simp]: "fv_end_key (format_value v) = end_key v"
  by (simp add: fv_end_key_def format_value_def end_key_def)

lemma fv_form_format [simp]: "fv_form (format_value v) = obs_form v"
  by (simp add: format_value_def)

lemma desc_adjacent:
  assumes "sorted (rev (map k zs))" and "Suc i < length (take n zs)"
  shows "k (take n zs ! Suc i) \<le> k (take n zs ! i)"
proof -
  from assms(2) have i: "Suc i < n" "Suc i < length zs" by simp_all
  have "map k zs ! Suc i \<le> map k zs ! i"
    using sorted_rev_nth_mono [of "map k zs" i "Suc i"] assms(1) i by simp
  with i show ?thesis by simp
qed

lemma normalize_values_desc:
  assumes "Suc i < length (normalize_values period years vs)"
  shows "fv_end_key (normalize_values period years vs ! Suc i)
           \<le> fv_end_key (normalize_values period years vs ! i)"
proof -
  obtain n where n: "limit_years period years (sort_by_end_desc (filter_forms period vs))
                       = take n (sort_by_end_desc (filter_forms period vs))"
    using limit_years_take by blast
  let ?zs = "sort_by_end_desc (filter_forms period vs)"
  from assms n have len: "Suc i < length (take n ?zs)"
    by (simp add: normalize_values_def)
  from desc_adjacent [OF sorted_sort_by_end_desc len]
  have "end_key (take n ?zs ! Suc i) \<le> end_key (take n ?zs ! i)" .
  with len n show ?thesis
    by (simp add: normalize_values_def)
qed

lemma length_normalize_values:
  assumes "0 \<le> years"
  shows "(period = ''annual'' \<longrightarrow> int (length (normalize_values period years vs)) \<le> years) \<and>
         (period \<noteq> ''annual'' \<longrightarrow> int (length (normalize_values period years vs)) \<le> years * 4)"
  using assms by (simp add: normalize_values_def limit_years_def length_py_slice_to)

lemma filter_item_values:
  "filter_item item_name item_data period years = Some item \<Longrightarrow>
   \<exists>c. item_data = Some c \<and> \<not> concept_is_empty c \<and> select_unit_data (units_of c) \<noteq> [] \<and>
       li_values item = normalize_values period years (select_unit_data (units_of c))"
  by (auto simp: filter_item_def Let_def split: option.splits if_splits)

lemma filter_by_period_item:
  "(item_name, result) \<in> set (filter_by_period data period years) \<Longrightarrow>
   \<exists>item_data. (item_name, item_data) \<in> set data \<and>
     result = filter_item item_name item_data period years"
  by (auto simp: filter_by_period_def)

text \<open>
  Claim C2, amended. In every line item produced by the period filter, each value's end
  date is at most that of the value before it, and for a horizon that is not negative the
  number of values is at most the horizon for annual data and at most four times the
  horizon for quarterly data.
\<close>

theorem filter_by_period_sorted_and_bounded:
  assumes "(item_name, Some item) \<in> set (filter_by_period data period years)"
  shows "(\<forall>i. Suc i < length (li_values item) \<longrightarrow>
            fv_end_key (li_values item ! Suc i) \<le> fv_end_key (li_values item ! i)) \<and>
         (0 \<le> years \<longrightarrow>
            (period = ''annual'' \<longrightarrow> int (length (li_values item)) \<le> years) \<and>
            (period = ''quarterly'' \<longrightarrow> int (length (li_values item)) \<le> years * 4))"
proof -
  from filter_by_period_item [OF assms] obtain item_data where
    "filter_item item_name item_data period years = Some item"
    by auto
  from filter_item_values [OF this] obtain c where
    v: "li_values item = normalize_values period years (select_unit_data (units_of c))"
    by blast
  show ?thesis
    unfolding v using normalize_values_desc length_normalize_values by auto
qed

lemma ex_select: "select_unit_data (units_of ex_concept) = ex_series"
  by (simp add: select_unit_data_def units_of_def ex_concept_def get_usd_def ex_series_def)

lemma ex_filter_annual: "filter_forms ''annual'' ex_series =
     [ex_obs 100 ''2021-12-31'' ''10-K'' ''2022-02-01'' ''a1'',
      ex_obs 121 ''2023-12-31'' ''10-K'' ''2024-02-01'' ''a4'',
      ex_obs 110 ''2022-12-31'' ''10-K'' ''2023-02-01'' ''a3'']"
  by (simp add: ex_series_def ex_obs_def form_of_def Let_def)

lemma ex_sorted_annual: "sort_by_end_desc (filter_forms ''annual'' ex_series) =
     [ex_obs 121 ''2023-12-31'' ''10-K'' ''2024-02-01'' ''a4'',
      ex_obs 110 ''2022-12-31'' ''10-K'' ''2023-02-01'' ''a3'',
      ex_obs 100 ''2021-12-31'' ''10-K'' ''2022-02-01'' ''a1'']"
  unfolding ex_filter_annual by (simp add: sort_by_end_desc_def ex_obs_def end_key_def)

lemma ex_format: "format_value (ex_obs v e f filed accn) = ex_fv v e f filed accn"
  by (simp add: format_value_def ex_obs_def ex_fv_def)

lemma ex_normalize_2: "normalize_values ''annual'' 2 ex_series =
     [ex_fv 121 ''2023-12-31'' ''10-K'' ''2024-02-01'' ''a4'',
      ex_fv 110 ''2022-12-31'' ''10-K'' ''2023-02-01'' ''a3'']"
  by (simp add: normalize_values_def ex_sorted_annual limit_years_def py_slice_to_def ex_format)

lemma ex_normalize_neg: "normalize_values ''annual'' (- 1) ex_series =
     [ex_fv 121 ''2023-12-31'' ''10-K'' ''2024-02-01'' ''a4'',
      ex_fv 110 ''2022-12-31'' ''10-K'' ''2023-02-01'' ''a3'']"
  by (simp add: normalize_values_def ex_sorted_annual limit_years_def py_slice_to_def ex_format)

lemma ex_item: "filter_item ''revenues'' (Some ex_concept) ''annual'' years =
   Some \<lparr> li_description = ''Revenues'', li_unit = ''USD'',
          li_values = normalize_values ''annual'' years ex_series \<rparr>"
  by (simp add: filter_item_def concept_is_empty_def ex_concept_def units_of_def unit_label_def
      select_unit_data_def get_usd_def ex_series_def Let_def)

lemma ex_filter_quarterly: "filter_forms ''quarterly'' ex_series =
     [ex_obs 30 ''2022-03-31'' ''10-Q'' ''2022-05-01'' ''a2'']"
  by (simp add: ex_series_def ex_obs_def form_of_def Let_def)

lemma ex_normalize_q: "normalize_values ''quarterly'' 1 ex_series =
     [ex_fv 30 ''2022-03-31'' ''10-Q'' ''2022-05-01'' ''a2'']"
  by (simp add: normalize_values_def ex_filter_quarterly sort_by_end_desc_def limit_years_def
      py_slice_to_def ex_format)

lemma ex_item_q: "filter_item ''revenues'' (Some ex_concept) ''quarterly'' years =
   Some \<lparr> li_description = ''Revenues'', li_unit = ''USD'',
          li_values = normalize_values ''quarterly'' years ex_series \<rparr>"
  by (simp add: filter_item_def concept_is_empty_def ex_concept_def units_of_def unit_label_def
      select_unit_data_def get_usd_def ex_series_def Let_def)

text \<open>
  Claim C2, amended, at the example concept: annual data with a horizon of two years and
  quarterly data with a horizon of one year.
\<close>

theorem filter_by_period_sorted_and_bounded_witness:
  "filter_by_period [(''revenues'', Some ex_concept)] ''annual'' 2 =
     [(''revenues'',
       Some \<lparr> li_description = ''Revenues'', li_unit = ''USD'',
              li_values = [ex_fv 121 ''2023-12-31'' ''10-K'' ''2024-02-01'' ''a4'',
                           ex_fv 110 ''2022-12-31'' ''10-K'' ''2023-02-01'' ''a3''] \<rparr>)] \<and>
   fv_end_key (ex_fv 110 ''2022-12-31'' ''10-K'' ''2023-02-01'' ''a3'')
     \<le> fv_end_key (ex_fv 121 ''2023-12-31'' ''10-K'' ''2024-02-01'' ''a4'') \<and>
   int (length [ex_fv 121 ''2023-12-31'' ''10-K'' ''2024-02-01'' ''a4'',
                ex_fv 110 ''2022-12-31'' ''10-K'' ''2023-02-01'' ''a3'']) \<le> 2 \<and>
   filter_by_period [(''revenues'', Some ex_concept)] ''quarterly'' 1 =
     [(''revenues'',
       Some \<lparr> li_description = ''Revenues'', li_unit = ''USD'',
              li_values = [ex_fv 30 ''2022-03-31'' ''10-Q'' ''2022-05-01'' ''a2''] \<rparr>)] \<and>
   int (length [ex_fv 30 ''2022-03-31'' ''10-Q'' ''2022-05-01'' ''a2'']) \<le> 1 * 4"
proof -
  let ?item = "\<lparr> li_description = ''Revenues'', li_unit = ''USD'',
            li_values = [ex_fv 121 ''2023-12-31'' ''10-K'' ''2024-02-01'' ''a4'',
                         ex_fv 110 ''2022-12-31'' ''10-K'' ''2023-02-01'' ''a3''] \<rparr>"
  let ?q = "\<lparr> li_description = ''Revenues'', li_unit = ''USD'',
            li_values = [ex_fv 30 ''2022-03-31'' ''10-Q'' ''2022-05-01'' ''a2''] \<rparr>"
  have h: "filter_by_period [(''revenues'', Some ex_concept)] ''annual'' 2
             = [(''revenues'', Some ?item)]"
    by (simp add: filter_by_period_def ex_item ex_normalize_2)
  have hq: "filter_by_period [(''revenues'', Some ex_concept)] ''quarterly'' 1
             = [(''revenues'', Some ?q)]"
    by (simp add: filter_by_period_def ex_item_q ex_normalize_q)
  have m: "(''revenues'', Some ?item)
             \<in> set (filter_by_period [(''revenues'', Some ex_concept)] ''annual'' 2)"
    unfolding h by simp
  have mq: "(''revenues'', Some ?q)
             \<in> set (filter_by_period [(''revenues'', Some ex_concept)] ''quarterly'' 1)"
    unfolding hq by simp
  from filter_by_period_sorted_and_bounded [OF m]
  have "(\<forall>i. Suc i < length (li_values ?item) \<longrightarrow>
            fv_end_key (li_values ?item ! Suc i) \<le> fv_end_key (li_values ?item ! i)) \<and>
        int (length (li_values ?item)) \<le> 2"
    by simp
  then have a: "fv_end_key (li_values ?item ! Suc 0) \<le> fv_end_key (li_values ?item ! 0) \<and>
        int (length (li_values ?item)) \<le> 2"
    by simp
  from filter_by_period_sorted_and_bounded [OF mq]
  have q: "int (length (li_values ?q)) \<le> 1 * 4"
    by simp
  from h hq a q show ?thesis by simp
qed

text \<open>
  Claim C2 as stated fails for a negative horizon: \<^verbatim>\<open>filtered_values[:-1]\<close> drops
  the last observation only, so two values are returned for the horizon \<open>-1\<close>.
\<close>

theorem filter_by_period_negative_years_counterexample:
  "filter_by_period [(''revenues'', Some ex_concept)] ''annual'' (- 1) =
     [(''revenues'',
       Some \<lparr> li_description = ''Revenues'', li_unit = ''USD'',
              li_values = [ex_fv 121 ''2023-12-31'' ''10-K'' ''2024-02-01'' ''a4'',
                           ex_fv 110 ''2022-12-31'' ''10-K'' ''2023-02-01'' ''a3''] \<rparr>)] \<and>
   \<not> int (length [ex_fv 121 ''2023-12-31'' ''10-K'' ''2024-02-01'' ''a4'',
                  ex_fv 110 ''2022-12-31'' ''10-K'' ''2023-02-01'' ''a3'']) \<le> - 1"
  by (simp add: filter_by_period_def ex_item ex_normalize_neg)

subsection \<open>Period normalization: form families\<close>

lemma form_of_Some: "form_of v = f \<Longrightarrow> f \<noteq> '''' \<Longrightarrow> obs_form v = Some f"
  by (auto simp: form_of_def split: option.splits)

lemma set_normalize_values:
  "set (normalize_values period years vs) \<subseteq> format_value ` set (filter_forms period vs)"
  using set_limit_years [of period years "sort_by_end_desc (filter_forms period vs)"]
  by (auto simp: normalize_values_def set_sort_by_end_desc)

lemma py_slice_to_all: "int (length xs) \<le> k \<Longrightarrow> py_slice_to xs k = xs"
  by (simp add: py_slice_to_def)

lemma mset_normalize_values_annual:
  assumes "int (length (filter_forms ''annual'' vs)) \<le> years"
  shows "mset (normalize_values ''annual'' years vs)
           = mset (map format_value (filter_forms ''annual'' vs))"
proof -
  have "length (sort_by_end_desc (filter_forms ''annual'' vs)) = length (filter_forms ''annual'' vs)"
    by (simp add: sort_by_end_desc_def)
  with assms have "py_slice_to (sort_by_end_desc (filter_forms ''annual'' vs)) years
      = sort_by_end_desc (filter_forms ''annual'' vs)"
    by (simp add: py_slice_to_all)
  then show ?thesis
    by (simp add: normalize_values_def limit_years_def mset_sort_by_end_desc)
qed

lemma mset_normalize_values_quarterly:
  assumes "int (length (filter_forms ''quarterly'' vs)) \<le> years * 4"
  shows "mset (normalize_values ''quarterly'' years vs)
           = mset (map format_value (filter_forms ''quarterly'' vs))"
proof -
  have "length (sort_by_end_desc (filter_forms ''quarterly'' vs)) = length (filter_forms ''quarterly'' vs)"
    by (simp add: sort_by_end_desc_def)
  with assms have "py_slice_to (sort_by_end_desc (filter_forms ''quarterly'' vs)) (years * 4)
      = sort_by_end_desc (filter_forms ''quarterly'' vs)"
    by (simp add: py_slice_to_all)
  then show ?thesis
    by (simp add: normalize_values_def limit_years_def mset_sort_by_end_desc)
qed

lemma annual_forms_only:
  assumes "x \<in> set (normalize_values ''annual'' years vs)"
  shows "fv_form x \<in> {Some ''10-K'', Some ''20-F'', Some ''40-F''}"
proof -
  from assms set_normalize_values obtain v
    where v: "v \<in> set (filter_forms ''annual'' vs)" "x = format_value v" by blast
  from v(1) have "form_of v \<in> {''10-K'', ''20-F'', ''40-F''}"
    by (simp add: filter_forms_annual)
  then have "obs_form v \<in> {Some ''10-K'', Some ''20-F'', Some ''40-F''}"
    by (auto dest: form_of_Some)
  with v(2) show ?thesis by simp
qed

lemma quarterly_forms_only:
  assumes "x \<in> set (normalize_values ''quarterly'' years vs)"
  shows "fv_form x = Some ''10-Q''"
proof -
  from assms set_normalize_values obtain v
    where v: "v \<in> set (filter_forms ''quarterly'' vs)" "x = format_value v" by blast
  from v(1) have "form_of v = ''10-Q''"
    by (simp add: filter_forms_quarterly)
  then have "obs_form v = Some ''10-Q''"
    by (auto dest: form_of_Some)
  with v(2) show ?thesis by simp
qed

text \<open>
  Claim C3. An annual line item holds only observations filed on forms 10-K, 20-F or
  40-F, so never one filed on form 10-Q, and a quarterly line item holds only observations
  filed on form 10-Q, so never one filed on form 10-K. When the horizon does not cut the
  series short, the values are exactly the observations of the selected unit series that
  were filed on a form of the family.
\<close>

theorem filter_item_form_family:
  assumes "filter_item item_name (Some c) period years = Some item"
  shows "(period = ''annual'' \<longrightarrow>
            li_values item =
              map format_value
                (py_slice_to
                   (sort_by_end_desc
                      (filter (\<lambda>v. form_of v \<in> {''10-K'', ''20-F'', ''40-F''})
                         (select_unit_data (units_of c))))
                   years) \<and>
            (\<forall>x\<in>set (li_values item).
               fv_form x \<in> {Some ''10-K'', Some ''20-F'', Some ''40-F''} \<and>
               fv_form x \<noteq> Some ''10-Q'') \<and>
            (int (length (filter (\<lambda>v. form_of v \<in> {''10-K'', ''20-F'', ''40-F''})
                            (select_unit_data (units_of c)))) \<le> years \<longrightarrow>
               mset (li_values item) =
                 mset (map format_value
                        (filter (\<lambda>v. form_of v \<in> {''10-K'', ''20-F'', ''40-F''})
                           (select_unit_data (units_of c)))))) \<and>
         (period = ''quarterly'' \<longrightarrow>
            li_values item =
              map format_value
                (py_slice_to
                   (sort_by_end_desc
                      (filter (\<lambda>v. form_of v = ''10-Q'') (select_unit_data (units_of c))))
                   (years * 4)) \<and>
            (\<forall>x\<in>set (li_values item).
               fv_form x = Some ''10-Q'' \<and> fv_form x \<noteq> Some ''10-K'') \<and>
            (int (length (filter (\<lambda>v. form_of v = ''10-Q'')
                            (select_unit_data (units_of c)))) \<le> years * 4 \<longrightarrow>
               mset (li_values item) =
                 mset (map format_value
                        (filter (\<lambda>v. form_of v = ''10-Q'')
                           (select_unit_data (units_of c))))))"
proof -
  from filter_item_values [OF assms] have
    v: "li_values item = normalize_values period years (select_unit_data (units_of c))"
    by auto
  have a1: "period = ''annual'' \<Longrightarrow> x \<in> set (li_values item) \<Longrightarrow>
             fv_form x \<in> {Some ''10-K'', Some ''20-F'', Some ''40-F''}" for x
    using annual_forms_only [of x years "select_unit_data (units_of c)"] v by simp
  have a2: "period = ''annual'' \<Longrightarrow> x \<in> set (li_values item) \<Longrightarrow>
             fv_form x \<noteq> Some ''10-Q''" for x
    using a1 [of x] by auto
  have q1: "period = ''quarterly'' \<Longrightarrow> x \<in> set (li_values item) \<Longrightarrow>
             fv_form x = Some ''10-Q''" for x
    using quarterly_forms_only [of x years "select_unit_data (units_of c)"] v by simp
  have q2: "period = ''quarterly'' \<Longrightarrow> x \<in> set (li_values item) \<Longrightarrow>
             fv_form x \<noteq> Some ''10-K''" for x
    using q1 [of x] by auto
  have ma: "period = ''annual'' \<Longrightarrow>
            int (length (filter (\<lambda>v. form_of v \<in> {''10-K'', ''20-F'', ''40-F''})
                            (select_unit_data (units_of c)))) \<le> years \<Longrightarrow>
               mset (li_values item) =
                 mset (map format_value
                        (filter (\<lambda>v. form_of v \<in> {''10-K'', ''20-F'', ''40-F''})
                           (select_unit_data (units_of c))))"
    using mset_normalize_values_annual [of "select_unit_data (units_of c)" years] v
    by (simp add: filter_forms_annual)
  have mq: "period = ''quarterly'' \<Longrightarrow>
            int (length (filter (\<lambda>v. form_of v = ''10-Q'')
                            (select_unit_data (units_of c)))) \<le> years * 4 \<Longrightarrow>
               mset (li_values item) =
                 mset (map format_value
                        (filter (\<lambda>v. form_of v = ''10-Q'')
                           (select_unit_data (units_of c))))"
    using mset_normalize_values_quarterly [of "select_unit_data (units_of c)" years] v
    by (simp add: filter_forms_quarterly)
  have ca: "period = ''annual'' \<Longrightarrow> li_values item =
              map format_value
                (py_slice_to
                   (sort_by_end_desc
                      (filter (\<lambda>v. form_of v \<in> {''10-K'', ''20-F'', ''40-F''})
                         (select_unit_data (units_of c))))
                   years)"
    unfolding v by (simp add: normalize_values_def limit_years_def filter_forms_annual)
  have cq: "period = ''quarterly'' \<Longrightarrow> li_values item =
              map format_value
                (py_slice_to
                   (sort_by_end_desc
                      (filter (\<lambda>v. form_of v = ''10-Q'') (select_unit_data (units_of c))))
                   (years * 4))"
    unfolding v by (simp add: normalize_values_def limit_years_def filter_forms_quarterly)
  show ?thesis
    by (intro conjI impI ballI; (rule ca cq ma mq a1 a2 q1 q2; assumption))
qed

lemma ex_normalize_3: "normalize_values ''annual'' 3 ex_series =
     [ex_fv 121 ''2023-12-31'' ''10-K'' ''2024-02-01'' ''a4'',
      ex_fv 110 ''2022-12-31'' ''10-K'' ''2023-02-01'' ''a3'',
      ex_fv 100 ''2021-12-31'' ''10-K'' ''2022-02-01'' ''a1'']"
  by (simp add: normalize_values_def ex_sorted_annual limit_years_def py_slice_to_def ex_format)

text \<open>
  Claim C3 at the example concept, for annual data over three years and for quarterly data
  over one year.
\<close>

theorem filter_item_form_family_witness:
  "filter_item ''revenues'' (Some ex_concept) ''annual'' 3 =
     Some \<lparr> li_description = ''Revenues'', li_unit = ''USD'',
            li_values = [ex_fv 121 ''2023-12-31'' ''10-K'' ''2024-02-01'' ''a4'',
                         ex_fv 110 ''2022-12-31'' ''10-K'' ''2023-02-01'' ''a3'',
                         ex_fv 100 ''2021-12-31'' ''10-K'' ''2022-02-01'' ''a1''] \<rparr> \<and>
   mset [ex_fv 121 ''2023-12-31'' ''10-K'' ''2024-02-01'' ''a4'',
         ex_fv 110 ''2022-12-31'' ''10-K'' ''2023-02-01'' ''a3'',
         ex_fv 100 ''2021-12-31'' ''10-K'' ''2022-02-01'' ''a1''] =
     mset (map format_value (filter (\<lambda>v. form_of v \<in> {''10-K'', ''20-F'', ''40-F''}) ex_series)) \<and>
   filter_item ''revenues'' (Some ex_concept) ''quarterly'' 1 =
     Some \<lparr> li_description = ''Revenues'', li_unit = ''USD'',
            li_values = [ex_fv 30 ''2022-03-31'' ''10-Q'' ''2022-05-01'' ''a2''] \<rparr> \<and>
   mset [ex_fv 30 ''2022-03-31'' ''10-Q'' ''2022-05-01'' ''a2''] =
     mset (map format_value (filter (\<lambda>v. form_of v = ''10-Q'') ex_series)) \<and>
   fv_form (ex_fv 121 ''2023-12-31'' ''10-K'' ''2024-02-01'' ''a4'') \<noteq> Some ''10-Q'' \<and>
   fv_form (ex_fv 30 ''2022-03-31'' ''10-Q'' ''2022-05-01'' ''a2'') \<noteq> Some ''10-K''"
proof -
  let ?a = "\<lparr> li_description = ''Revenues'', li_unit = ''USD'',
            li_values = [ex_fv 121 ''2023-12-31'' ''10-K'' ''2024-02-01'' ''a4'',
                         ex_fv 110 ''2022-12-31'' ''10-K'' ''2023-02-01'' ''a3'',
                         ex_fv 100 ''2021-12-31'' ''10-K'' ''2022-02-01'' ''a1''] \<rparr>"
  let ?q = "\<lparr> li_description = ''Revenues'', li_unit = ''USD'',
            li_values = [ex_fv 30 ''2022-03-31'' ''10-Q'' ''2022-05-01'' ''a2''] \<rparr>"
  have ha: "filter_item ''revenues'' (Some ex_concept) ''annual'' 3 = Some ?a"
    by (simp add: ex_item ex_normalize_3)
  have hq: "filter_item ''revenues'' (Some ex_concept) ''quarterly'' 1 = Some ?q"
    by (simp add: ex_item_q ex_normalize_q)
  have la: "int (length (filter (\<lambda>v. form_of v \<in> {''10-K'', ''20-F'', ''40-F''})
                  (select_unit_data (units_of ex_concept)))) \<le> 3"
    using ex_filter_annual by (simp add: ex_select filter_forms_annual)
  have lq: "int (length (filter (\<lambda>v. form_of v = ''10-Q'')
                  (select_unit_data (units_of ex_concept)))) \<le> 1 * 4"
    using ex_filter_quarterly by (simp add: ex_select filter_forms_quarterly)
  from filter_item_form_family [OF ha] la
  have "mset (li_values ?a) = mset (map format_value
             (filter (\<lambda>v. form_of v \<in> {''10-K'', ''20-F'', ''40-F''})
                (select_unit_data (units_of ex_concept))))"
    by blast
  then have a: "mset (li_values ?a) = mset (map format_value
             (filter (\<lambda>v. form_of v \<in> {''10-K'', ''20-F'', ''40-F''}) ex_series))"
    by (simp only: ex_select)
  from filter_item_form_family [OF hq] lq
  have "mset (li_values ?q) = mset (map format_value
             (filter (\<lambda>v. form_of v = ''10-Q'') (select_unit_data (units_of ex_concept))))"
    by blast
  then have q: "mset (li_values ?q) = mset (map format_value
             (filter (\<lambda>v. form_of v = ''10-Q'') ex_series))"
    by (simp only: ex_select)
  from a have a': "mset [ex_fv 121 ''2023-12-31'' ''10-K'' ''2024-02-01'' ''a4'',
         ex_fv 110 ''2022-12-31'' ''10-K'' ''2023-02-01'' ''a3'',
         ex_fv 100 ''2021-12-31'' ''10-K'' ''2022-02-01'' ''a1''] =
     mset (map format_value (filter (\<lambda>v. form_of v \<in> {''10-K'', ''20-F'', ''40-F''}) ex_series))"
    by (simp only: line_item.simps)
  from q have q': "mset [ex_fv 30 ''2022-03-31'' ''10-Q'' ''2022-05-01'' ''a2''] =
     mset (map format_value (filter (\<lambda>v. form_of v = ''10-Q'') ex_series))"
    by (simp only: line_item.simps)
  have "ex_fv 121 ''2023-12-31'' ''10-K'' ''2024-02-01'' ''a4'' \<in> set (li_values ?a)"
    by simp
  with filter_item_form_family [OF ha]
  have fa: "fv_form (ex_fv 121 ''2023-12-31'' ''10-K'' ''2024-02-01'' ''a4'') \<noteq> Some ''10-Q''"
    by blast
  have "ex_fv 30 ''2022-03-31'' ''10-Q'' ''2022-05-01'' ''a2'' \<in> set (li_values ?q)"
    by simp
  with filter_item_form_family [OF hq]
  have fq: "fv_form (ex_fv 30 ''2022-03-31'' ''10-Q'' ''2022-05-01'' ''a2'') \<noteq> Some ''10-K''"
    by blast
  from ha hq a' q' fa fq show ?thesis by blast
qed

subsection \<open>Period normalization: ties\<close>

lemma sort_by_end_desc_stable:
  "filter (\<lambda>v. end_key v = k) (sort_by_end_desc vs) = filter (\<lambda>v. end_key v = k) vs"
proof -
  have "filter (\<lambda>v. end_key v = k) (sort_key end_key (rev vs)) = filter (\<lambda>v. end_key v = k) (rev vs)"
    by (rule sort_key_stable)
  then show ?thesis
    by (simp add: sort_by_end_desc_def rev_filter [symmetric])
qed

lemma mset_filter_forms:
  "mset xs = mset ys \<Longrightarrow> mset (filter_forms period xs) = mset (filter_forms period ys)"
  unfolding filter_forms_filter by (metis mset_filter)

lemma sort_by_end_desc_unique:
  assumes "mset xs = mset ys" and "distinct (map end_key xs)"
  shows "sort_by_end_desc xs = sort_by_end_desc ys"
proof -
  have i: "inj_on end_key (set (rev xs))"
    using assms(2) by (simp add: distinct_map)
  have m: "mset (rev xs) = mset (rev ys)"
    using assms(1) by simp
  from m i have "sort_key end_key (rev xs) = sort_key end_key (rev ys)"
    by (rule sort_key_eq_sort_key)
  then show ?thesis by (simp add: sort_by_end_desc_def)
qed

text \<open>
  Claim C4, amended. The filtered observations are sorted by end date alone, most recent
  first; the sort keeps every observation, and observations with the same end date stay
  in the order of the input. Two orderings of the same observations therefore give the same
  values whenever the observations kept by the form filter have pairwise distinct end
  dates.
\<close>

theorem normalize_values_order:
  "sorted (rev (map end_key (sort_by_end_desc vs))) \<and>
   mset (sort_by_end_desc vs) = mset vs \<and>
   (\<forall>k. filter (\<lambda>v. end_key v = k) (sort_by_end_desc vs) = filter (\<lambda>v. end_key v = k) vs) \<and>
   (mset xs = mset ys \<and> distinct (map end_key (filter_forms period xs)) \<longrightarrow>
      normalize_values period years xs = normalize_values period years ys)"
proof -
  have "normalize_values period years xs = normalize_values period years ys"
    if "mset xs = mset ys" "distinct (map end_key (filter_forms period xs))"
  proof -
    from that(1) have "mset (filter_forms period xs) = mset (filter_forms period ys)"
      by (rule mset_filter_forms)
    from sort_by_end_desc_unique [OF this that(2)]
    show ?thesis by (simp add: normalize_values_def)
  qed
  then show ?thesis
    using sorted_sort_by_end_desc sort_by_end_desc_stable mset_sort_by_end_desc by blast
qed

lemma tie_item: "filter_item ''revenues'' (Some (usd_concept tie_series)) ''annual'' 3 =
     Some \<lparr> li_description = ''Revenues'', li_unit = ''USD'',
            li_values = [ex_fv 100 ''2023-12-31'' ''10-K'' ''2024-02-01'' ''a1'',
                         ex_fv 105 ''2023-12-31'' ''10-K'' ''2024-03-01'' ''a2''] \<rparr>"
  by (simp add: filter_item_def concept_is_empty_def usd_concept_def units_of_def unit_label_def
      select_unit_data_def get_usd_def tie_series_def Let_def normalize_values_def
      filter_forms_annual sort_by_end_desc_def limit_years_def py_slice_to_def
      ex_obs_def ex_fv_def form_of_def end_key_def format_value_def)

lemma tie_item_rev: "filter_item ''revenues'' (Some (usd_concept (rev tie_series))) ''annual'' 3 =
     Some \<lparr> li_description = ''Revenues'', li_unit = ''USD'',
            li_values = [ex_fv 105 ''2023-12-31'' ''10-K'' ''2024-03-01'' ''a2'',
                         ex_fv 100 ''2023-12-31'' ''10-K'' ''2024-02-01'' ''a1''] \<rparr>"
  by (simp add: filter_item_def concept_is_empty_def usd_concept_def units_of_def unit_label_def
      select_unit_data_def get_usd_def tie_series_def Let_def normalize_values_def
      filter_forms_annual sort_by_end_desc_def limit_years_def py_slice_to_def
      ex_obs_def ex_fv_def form_of_def end_key_def format_value_def)

text \<open>
  Claim C4 as stated fails: the filing date and the accession number take no part in the
  sort. Two observations with the same end date come out in input order, the one filed
  earlier first here, and reversing the input reverses the output.
\<close>

theorem normalize_ties_counterexample:
  "mset tie_series = mset (rev tie_series) \<and>
   filter_item ''revenues'' (Some (usd_concept tie_series)) ''annual'' 3 =
     Some \<lparr> li_description = ''Revenues'', li_unit = ''USD'',
            li_values = [ex_fv 100 ''2023-12-31'' ''10-K'' ''2024-02-01'' ''a1'',
                         ex_fv 105 ''2023-12-31'' ''10-K'' ''2024-03-01'' ''a2''] \<rparr> \<and>
   filter_item ''revenues'' (Some (usd_concept tie_series)) ''annual'' 3 \<noteq>
   filter_item ''revenues'' (Some (usd_concept (rev tie_series))) ''annual'' 3"
  unfolding tie_item tie_item_rev by (simp add: ex_fv_def)

text \<open>
  Claim C4, amended, at the example series and its reversal.
\<close>

theorem normalize_values_order_witness:
  "mset ex_series = mset (rev ex_series) \<and>
   distinct (map end_key (filter_forms ''annual'' ex_series)) \<and>
   normalize_values ''annual'' 2 ex_series = normalize_values ''annual'' 2 (rev ex_series)"
proof -
  have m: "mset ex_series = mset (rev ex_series)" by simp
  have d: "distinct (map end_key (filter_forms ''annual'' ex_series))"
    unfolding ex_filter_annual by (simp add: ex_obs_def end_key_def)
  from normalize_values_order [of _ ex_series "rev ex_series" "''annual''" 2] m d
  show ?thesis by blast
qed

subsection \<open>Unit selection\<close>

lemma try_other_units_find:
  "try_other_units us d =
     (case find currency_like us of None \<Rightarrow> d | Some entry \<Rightarrow> snd entry)"
  by (induction us d rule: try_other_units.induct) (simp_all add: currency_like_def)

lemma try_other_units_none:
  "\<forall>entry\<in>set us. \<not> currency_like entry \<Longrightarrow> try_other_units us d = d"
  by (induction us d rule: try_other_units.induct) (auto simp: currency_like_def)

lemma map_of_USD_none:
  "\<forall>entry\<in>set us. \<not> currency_like entry \<Longrightarrow> map_of us ''USD'' = None"
proof (induction us)
  case Nil
  then show ?case by simp
next
  case (Cons e us)
  then have "fst e \<noteq> ''USD''"
    by (auto simp: currency_like_def endswith_def)
  with Cons show ?case by (cases e) simp
qed

lemma select_unit_data_none:
  "\<forall>entry\<in>set us. \<not> currency_like entry \<Longrightarrow> select_unit_data us = []"
  by (simp add: select_unit_data_def get_usd_def map_of_USD_none try_other_units_none)

lemma filter_item_None_iff:
  "filter_item item_name (Some c) period years = None
     \<longleftrightarrow> concept_is_empty c \<or> select_unit_data (units_of c) = []"
  by (simp add: filter_item_def Let_def)

text \<open>
  Claim C5, amended. Unit selection takes the \<^verbatim>\<open>USD\<close> series when it is present and
  not empty; otherwise it takes the series of the first unit, in the order of the mapping,
  whose label ends in \<^verbatim>\<open>USD\<close> or is \<^verbatim>\<open>shares\<close>, and nothing when there is no
  such unit. There is no fallback to the first available unit: a concept that is not the
  empty dictionary normalizes to absence exactly when the selected series is empty, which
  is the case whenever no unit label ends in \<^verbatim>\<open>USD\<close> or is \<^verbatim>\<open>shares\<close>.
\<close>

theorem select_unit_data_rule:
  "select_unit_data us =
     (if get_usd us \<noteq> [] then get_usd us
      else case find currency_like us of None \<Rightarrow> [] | Some entry \<Rightarrow> snd entry) \<and>
   ((\<forall>entry\<in>set us. \<not> currency_like entry) \<longrightarrow> select_unit_data us = []) \<and>
   (filter_item item_name (Some c) period years = None
      \<longleftrightarrow> concept_is_empty c \<or> select_unit_data (units_of c) = [])"
  using select_unit_data_none [of us] filter_item_None_iff [of item_name c period years]
  by (simp add: select_unit_data_def try_other_units_find)

lemma eur_none: "filter_item ''revenues'' (Some eur_concept) ''annual'' 3 = None"
  by (simp add: filter_item_def concept_is_empty_def eur_concept_def units_of_def
      select_unit_data_def get_usd_def endswith_def suffix_def Let_def)

text \<open>
  Claim C5 as stated fails: a concept whose only unit is \<^verbatim>\<open>EUR\<close>, with four
  observations, normalizes to absence.
\<close>

theorem unit_fallback_counterexample:
  "units_of eur_concept = [(''EUR'', ex_series)] \<and> ex_series \<noteq> [] \<and>
   filter_item ''revenues'' (Some eur_concept) ''annual'' 3 = None"
  using eur_none by (simp add: units_of_def eur_concept_def ex_series_def)

text \<open>
  Claim C5, amended, at a concept reported in euros only, which normalizes to absence,
  and at a share count whose second unit is \<^verbatim>\<open>shares\<close>, which is selected.
\<close>

theorem select_unit_data_rule_witness:
  "\<not> currency_like (''EUR'', ex_series) \<and>
   select_unit_data (units_of eur_concept) = [] \<and>
   filter_item ''revenues'' (Some eur_concept) ''annual'' 3 = None \<and>
   get_usd (units_of shares_concept) = [] \<and>
   select_unit_data (units_of shares_concept) = tie_series"
proof -
  have e: "\<forall>entry\<in>set (units_of eur_concept). \<not> currency_like entry"
    by (simp add: units_of_def eur_concept_def currency_like_def endswith_def suffix_def)
  from select_unit_data_rule [of "units_of eur_concept" "''revenues''" eur_concept "''annual''" 3] e
  have 1: "select_unit_data (units_of eur_concept) = []"
    and 2: "filter_item ''revenues'' (Some eur_concept) ''annual'' 3 = None"
    by blast+
  have g: "get_usd (units_of shares_concept) = []"
    by (simp add: units_of_def shares_concept_def get_usd_def)
  have f: "find currency_like (units_of shares_concept) = Some (''shares'', tie_series)"
    by (simp add: units_of_def shares_concept_def currency_like_def endswith_def suffix_def)
  from select_unit_data_rule [of "units_of shares_concept" "''x''" shares_concept "''annual''" 3] g f
  have 3: "select_unit_data (units_of shares_concept) = tie_series"
    by (metis (no_types, lifting) option.simps(5) snd_conv)
  from e 1 2 g 3 show ?thesis
    by (simp add: units_of_def eur_concept_def)
qed

subsection \<open>Altman Z-Score\<close>

lemma zone_cases:
  "zone ''Safe Zone'' ''Safe Zone - Low bankruptcy risk''"
  "\<not> zone ''Grey Zone'' ''Safe Zone - Low bankruptcy risk''"
  "\<not> zone ''Distress Zone'' ''Safe Zone - Low bankruptcy risk''"
  "\<not> zone ''Safe Zone'' ''Grey Zone - Moderate bankruptcy risk''"
  "zone ''Grey Zone'' ''Grey Zone - Moderate bankruptcy risk''"
  "\<not> zone ''Distress Zone'' ''Grey Zone - Moderate bankruptcy risk''"
  "\<not> zone ''Safe Zone'' ''Distress Zone - High bankruptcy risk''"
  "\<not> zone ''Grey Zone'' ''Distress Zone - High bankruptcy risk''"
  "zone ''Distress Zone'' ''Distress Zone - High bankruptcy risk''"
  by (simp_all add: zone_def)

text \<open>
  Claim C6. When \<^verbatim>\<open>total_assets\<close> is not zero, the returned interpretation names the
  safe zone exactly when the returned score \<open>Z\<close> is above 2.99, the grey zone exactly
  when \<open>1.81 < Z \<le> 2.99\<close>, and the distress zone exactly when \<open>Z \<le> 1.81\<close>; the score
  is the weighted sum of the five ratios.
\<close>

theorem altman_classification:
  assumes "total_assets \<noteq> 0"
    and "calculate_altman_z_score working_capital total_assets retained_earnings ebit
           market_value_equity total_liabilities sales = (z, interpretation)"
  shows "(zone ''Safe Zone'' interpretation \<longleftrightarrow> z > 2.99) \<and>
         (zone ''Grey Zone'' interpretation \<longleftrightarrow> 1.81 < z \<and> z \<le> 2.99) \<and>
         (zone ''Distress Zone'' interpretation \<longleftrightarrow> z \<le> 1.81) \<and>
         z = 1.2 * (working_capital / total_assets) + 1.4 * (retained_earnings / total_assets)
               + 3.3 * (ebit / total_assets)
               + 0.6 * (if total_liabilities > 0 then market_value_equity / total_liabilities else 0)
               + 1.0 * (sales / total_assets)"
proof -
  let ?z = "1.2 * (working_capital / total_assets) + 1.4 * (retained_earnings / total_assets)
               + 3.3 * (ebit / total_assets)
               + 0.6 * (if total_liabilities > 0 then market_value_equity / total_liabilities else 0)
               + 1.0 * (sales / total_assets)"
  let ?i = "\<lambda>x::real. if x > 2.99 then ''Safe Zone - Low bankruptcy risk''
            else if x > 1.81 then ''Grey Zone - Moderate bankruptcy risk''
            else ''Distress Zone - High bankruptcy risk''"
  from assms(1) have "calculate_altman_z_score working_capital total_assets retained_earnings ebit
           market_value_equity total_liabilities sales = (?z, ?i ?z)"
    by (simp only: calculate_altman_z_score_def Let_def if_False)
  with assms(2) have e: "(z, interpretation) = (?z, ?i ?z)"
    by (simp only:)
  from e have z: "z = ?z"
    by (rule Pair_inject)
  from e have "interpretation = ?i ?z"
    by (rule Pair_inject)
  then have i: "interpretation = ?i z"
    by (simp only: z)
  have "(zone ''Safe Zone'' interpretation \<longleftrightarrow> z > 2.99) \<and>
         (zone ''Grey Zone'' interpretation \<longleftrightarrow> 1.81 < z \<and> z \<le> 2.99) \<and>
         (zone ''Distress Zone'' interpretation \<longleftrightarrow> z \<le> 1.81)"
    unfolding i using zone_cases by auto
  with z show ?thesis by blast
qed

text \<open>
  Claim C6 at the three boundary scores: 3.00 is in the safe zone, 2.99 in the grey zone
  and 1.81 in the distress zone.
\<close>

theorem altman_classification_witness:
  "(1::real) \<noteq> 0 \<and>
   calculate_altman_z_score 0 1 0 0 0 0 3.00 = (3.00, ''Safe Zone - Low bankruptcy risk'') \<and>
   zone ''Safe Zone'' ''Safe Zone - Low bankruptcy risk'' \<and>
   calculate_altman_z_score 0 1 0 0 0 0 2.99 = (2.99, ''Grey Zone - Moderate bankruptcy risk'') \<and>
   zone ''Grey Zone'' ''Grey Zone - Moderate bankruptcy risk'' \<and>
   calculate_altman_z_score 0 1 0 0 0 0 1.81 = (1.81, ''Distress Zone - High bankruptcy risk'') \<and>
   zone ''Distress Zone'' ''Distress Zone - High bankruptcy risk''"
proof -
  have a: "(1::real) \<noteq> 0" by simp
  have s: "calculate_altman_z_score 0 1 0 0 0 0 3.00 = (3.00, ''Safe Zone - Low bankruptcy risk'')"
    by (simp add: calculate_altman_z_score_def Let_def)
  have g: "calculate_altman_z_score 0 1 0 0 0 0 2.99 = (2.99, ''Grey Zone - Moderate bankruptcy risk'')"
    by (simp add: calculate_altman_z_score_def Let_def)
  have d: "calculate_altman_z_score 0 1 0 0 0 0 1.81 = (1.81, ''Distress Zone - High bankruptcy risk'')"
    by (simp add: calculate_altman_z_score_def Let_def)
  from altman_classification [OF a s] have "zone ''Safe Zone'' ''Safe Zone - Low bankruptcy risk''"
    by simp
  moreover from altman_classification [OF a g]
  have "zone ''Grey Zone'' ''Grey Zone - Moderate bankruptcy risk''"
    by simp
  moreover from altman_classification [OF a d]
  have "zone ''Distress Zone'' ''Distress Zone - High bankruptcy risk''"
    by simp
  ultimately show ?thesis using a s g d by blast
qed

subsection \<open>Terminal value\<close>

text \<open>
  Claim C8. The terminal value is 0 when the discount rate is at most the terminal growth
  rate, and \<open>final_fcf * (1 + g) / (WACC - g)\<close> otherwise; in both cases the function
  returns a value, no division raises.
\<close>

theorem terminal_value_total:
  "(wacc \<le> terminal_growth \<longrightarrow>
      calculate_terminal_value final_fcf terminal_growth wacc = Inr 0) \<and>
   (wacc > terminal_growth \<longrightarrow>
      calculate_terminal_value final_fcf terminal_growth wacc
        = Inr (final_fcf * (1 + terminal_growth) / (wacc - terminal_growth)))"
  by (simp add: calculate_terminal_value_def py_div_def)

text \<open>
  Claim C8 with both rates at 3 percent, and with a discount rate of 10 percent over a
  growth rate of 2 percent.
\<close>

theorem terminal_value_total_witness:
  "(0.03::real) \<le> 0.03 \<and> calculate_terminal_value 100 0.03 0.03 = Inr 0 \<and>
   (0.10::real) > 0.02 \<and> calculate_terminal_value 100 0.02 0.10 = Inr 1275"
proof -
  have 1: "(0.03::real) \<le> 0.03" and 2: "(0.10::real) > 0.02" by simp_all
  from terminal_value_total [of "0.03" "0.03" 100] 1
  have a: "calculate_terminal_value 100 0.03 0.03 = Inr 0" by blast
  from terminal_value_total [of "0.10" "0.02" 100] 2
  have "calculate_terminal_value 100 0.02 0.10 = Inr (100 * (1 + 0.02) / (0.10 - 0.02))" by blast
  then have b: "calculate_terminal_value 100 0.02 0.10 = Inr 1275" by simp
  from 1 2 a b show ?thesis by blast
qed

subsection \<open>Piotroski F-Score\<close>

lemma record_criterion_eq:
  "record_criterion name holds (criteria, score) =
     (criteria @ [(name, holds)], score + of_bool holds)"
  by (simp add: record_criterion_def)

lemma count_true_Cons:
  "int (length (filter id (b # bs))) = of_bool b + int (length (filter id bs))"
  by simp

lemma count_true_Nil: "int (length (filter id [])) = 0"
  by simp

lemma piotroski_closed_form:
  "calculate_piotroski_f_score financials =
     (int (length (filter id (piotroski_tests financials))),
      zip criteria_names (piotroski_tests financials))"
  unfolding calculate_piotroski_f_score_def Let_def record_criterion_eq snd_conv fst_conv
    piotroski_tests_def criteria_names_def count_true_Cons count_true_Nil
  by (simp del: of_bool_eq_iff split del: if_split)

lemma fin_get_missing: "financials key = None \<Longrightarrow> fin_get financials key = 0"
  by (simp add: fin_get_def)

text \<open>
  Claim C7, amended. The score function returns for every input mapping: nine flags under
  the nine criterion names, and the number of true flags as the score. A missing field is
  read as 0. So each of the seven criteria that compare one field with 0 strictly is false
  when its field is missing, \<^verbatim>\<open>quality_earnings\<close> is false when both of its fields are
  missing, and \<^verbatim>\<open>no_dilution\<close>, which tests \<^verbatim>\<open>shares_change <= 0\<close>, is true when
  its field is missing.
\<close>

theorem piotroski_missing_inputs:
  assumes "calculate_piotroski_f_score financials = (score, criteria)"
  shows "map fst criteria = criteria_names \<and>
         score = int (length (filter id (map snd criteria))) \<and>
         (financials ''roa'' = None \<longrightarrow> map_of criteria ''positive_roa'' = Some False) \<and>
         (financials ''operating_cash_flow'' = None \<longrightarrow>
            map_of criteria ''positive_ocf'' = Some False) \<and>
         (financials ''roa_change'' = None \<longrightarrow> map_of criteria ''increasing_roa'' = Some False) \<and>
         (financials ''operating_cash_flow'' = None \<and> financials ''net_income'' = None \<longrightarrow>
            map_of criteria ''quality_earnings'' = Some False) \<and>
         (financials ''leverage_change'' = None \<longrightarrow>
            map_of criteria ''decreasing_leverage'' = Some False) \<and>
         (financials ''current_ratio_change'' = None \<longrightarrow>
            map_of criteria ''increasing_liquidity'' = Some False) \<and>
         (financials ''shares_change'' = None \<longrightarrow> map_of criteria ''no_dilution'' = Some True) \<and>
         (financials ''gross_margin_change'' = None \<longrightarrow>
            map_of criteria ''increasing_margin'' = Some False) \<and>
         (financials ''asset_turnover_change'' = None \<longrightarrow>
            map_of criteria ''increasing_efficiency'' = Some False)"
proof -
  from assms have s: "score = int (length (filter id (piotroski_tests financials)))"
    and c: "criteria = zip criteria_names (piotroski_tests financials)"
    by (simp_all add: piotroski_closed_form)
  have n: "map fst criteria = criteria_names" and t: "map snd criteria = piotroski_tests financials"
    unfolding c by (simp_all add: criteria_names_def piotroski_tests_def)
  have m: "map_of criteria =
     map_of (zip criteria_names (piotroski_tests financials))"
    unfolding c ..
  show ?thesis
    unfolding m s n t
    by (simp add: criteria_names_def piotroski_tests_def fin_get_missing)
qed

text \<open>
  Claim C7 as stated fails at the empty mapping: \<^verbatim>\<open>no_dilution\<close> is true there and
  the score is 1.
\<close>

theorem piotroski_empty_counterexample:
  "calculate_piotroski_f_score Map.empty =
     (1, [(''positive_roa'', False), (''positive_ocf'', False), (''increasing_roa'', False),
          (''quality_earnings'', False), (''decreasing_leverage'', False),
          (''increasing_liquidity'', False), (''no_dilution'', True),
          (''increasing_margin'', False), (''increasing_efficiency'', False)])"
  by (simp add: piotroski_closed_form piotroski_tests_def criteria_names_def fin_get_def)

text \<open>
  Claim C7, amended, at a mapping that holds none of the fields the nine criteria read.
\<close>

theorem piotroski_missing_inputs_witness:
  "calculate_piotroski_f_score [''revenue'' \<mapsto> 100] =
     (1, [(''positive_roa'', False), (''positive_ocf'', False), (''increasing_roa'', False),
          (''quality_earnings'', False), (''decreasing_leverage'', False),
          (''increasing_liquidity'', False), (''no_dilution'', True),
          (''increasing_margin'', False), (''increasing_efficiency'', False)]) \<and>
   [''revenue'' \<mapsto> 100::real] ''roa'' = None \<and>
   [''revenue'' \<mapsto> 100::real] ''operating_cash_flow'' = None \<and>
   [''revenue'' \<mapsto> 100::real] ''roa_change'' = None \<and>
   [''revenue'' \<mapsto> 100::real] ''net_income'' = None \<and>
   [''revenue'' \<mapsto> 100::real] ''leverage_change'' = None \<and>
   [''revenue'' \<mapsto> 100::real] ''current_ratio_change'' = None \<and>
   [''revenue'' \<mapsto> 100::real] ''shares_change'' = None \<and>
   [''revenue'' \<mapsto> 100::real] ''gross_margin_change'' = None \<and>
   [''revenue'' \<mapsto> 100::real] ''asset_turnover_change'' = None \<and>
   map fst [(''positive_roa'', False), (''positive_ocf'', False), (''increasing_roa'', False),
          (''quality_earnings'', False), (''decreasing_leverage'', False),
          (''increasing_liquidity'', False), (''no_dilution'', True),
          (''increasing_margin'', False), (''increasing_efficiency'', False)] = criteria_names \<and>
   map_of [(''positive_roa'', False), (''positive_ocf'', False), (''increasing_roa'', False),
          (''quality_earnings'', False), (''decreasing_leverage'', False),
          (''increasing_liquidity'', False), (''no_dilution'', True),
          (''increasing_margin'', False), (''increasing_efficiency'', False)] ''no_dilution''
     = Some True \<and>
   map_of [(''positive_roa'', False), (''positive_ocf'', False), (''increasing_roa'', False),
          (''quality_earnings'', False), (''decreasing_leverage'', False),
          (''increasing_liquidity'', False), (''no_dilution'', True),
          (''increasing_margin'', False), (''increasing_efficiency'', False)] ''quality_earnings''
     = Some False"
proof -
  let ?f = "[''revenue'' \<mapsto> 100::real]"
  let ?c = "[(''positive_roa'', False), (''positive_ocf'', False), (''increasing_roa'', False),
          (''quality_earnings'', False), (''decreasing_leverage'', False),
          (''increasing_liquidity'', False), (''no_dilution'', True),
          (''increasing_margin'', False), (''increasing_efficiency'', False)]"
  have h: "calculate_piotroski_f_score ?f = (1, ?c)"
    by (simp add: piotroski_closed_form piotroski_tests_def criteria_names_def fin_get_def)
  have m: "?f ''roa'' = None" "?f ''operating_cash_flow'' = None" "?f ''roa_change'' = None"
    "?f ''net_income'' = None" "?f ''leverage_change'' = None"
    "?f ''current_ratio_change'' = None" "?f ''shares_change'' = None"
    "?f ''gross_margin_change'' = None" "?f ''asset_turnover_change'' = None"
    by simp_all
  note t = piotroski_missing_inputs [OF h]
  from t have n: "map fst ?c = criteria_names" by (rule conjunct1)
  from t m(7) have d: "map_of ?c ''no_dilution'' = Some True" by blast
  from t m(2,4) have q: "map_of ?c ''quality_earnings'' = Some False" by blast
  from h m n d q show ?thesis by blast
qed

subsection \<open>DCF value\<close>

lemma sum_discounted_ok:
  "wacc \<noteq> - 1 \<Longrightarrow>
   sum_discounted wacc i fcfs acc
     = Inr (acc + (\<Sum>k<length fcfs. fcfs ! k / (1 + wacc) ^ (i + k + 1)))"
proof (induction fcfs arbitrary: i acc)
  case Nil
  then show ?case by simp
next
  case (Cons fcf rest)
  from Cons.prems have nz: "(1 + wacc) ^ (i + 1) \<noteq> 0" by simp
  have "sum_discounted wacc i (fcf # rest) acc
          = sum_discounted wacc (i + 1) rest (acc + fcf / (1 + wacc) ^ (i + 1))"
    using nz by (simp add: py_div_def)
  also have "\<dots> = Inr (acc + fcf / (1 + wacc) ^ (i + 1)
                      + (\<Sum>k<length rest. rest ! k / (1 + wacc) ^ (i + 1 + k + 1)))"
    using Cons.IH [OF Cons.prems] by simp
  also have "\<dots> = Inr (acc + (\<Sum>k<length (fcf # rest). (fcf # rest) ! k / (1 + wacc) ^ (i + k + 1)))"
    by (simp add: sum.lessThan_Suc_shift add.assoc del: sum.lessThan_Suc)
  finally show ?case .
qed

lemma sum_discounted_fault:
  "wacc = - 1 \<Longrightarrow> fcfs \<noteq> [] \<Longrightarrow> sum_discounted wacc i fcfs acc = Inl ZeroDivisionError"
  by (cases fcfs) (simp_all add: py_div_def)

lemma dcf_empty:
  "calculate_dcf_value [] terminal_growth wacc net_debt shares_outstanding = Inl IndexError"
  by (simp add: calculate_dcf_value_def py_last_def)

lemma dcf_fault:
  "fcfs \<noteq> [] \<Longrightarrow>
   calculate_dcf_value fcfs terminal_growth (- 1) net_debt shares_outstanding
     = Inl ZeroDivisionError"
  by (simp add: calculate_dcf_value_def sum_discounted_fault)

lemma terminal_value_Inr:
  "calculate_terminal_value f g w = Inr (if w \<le> g then 0 else f * (1 + g) / (w - g))"
  by (simp add: calculate_terminal_value_def py_div_def)

lemma dcf_ok:
  assumes "fcfs \<noteq> []" and "wacc \<noteq> - 1"
  shows "calculate_dcf_value fcfs terminal_growth wacc net_debt shares_outstanding =
     Inr \<lparr> intrinsic_value_per_share =
             (if shares_outstanding > 0
              then (discounted_sum wacc fcfs + discounted_terminal wacc terminal_growth fcfs
                      - net_debt) / shares_outstanding
              else 0),
           enterprise_value = discounted_sum wacc fcfs + discounted_terminal wacc terminal_growth fcfs,
           equity_value = discounted_sum wacc fcfs + discounted_terminal wacc terminal_growth fcfs
                            - net_debt,
           pv_fcfs = discounted_sum wacc fcfs,
           pv_terminal = discounted_terminal wacc terminal_growth fcfs \<rparr>"
proof -
  have s: "sum_discounted wacc 0 fcfs 0 = Inr (discounted_sum wacc fcfs)"
    using sum_discounted_ok [OF assms(2), of 0 fcfs 0] by (simp add: discounted_sum_def)
  have l: "py_last fcfs = Inr (last fcfs)"
    using assms(1) by (simp add: py_last_def)
  have nz: "(1 + wacc) ^ length fcfs \<noteq> 0"
    using assms(2) by simp
  have d: "py_div (if wacc \<le> terminal_growth then 0
                   else last fcfs * (1 + terminal_growth) / (wacc - terminal_growth))
             ((1 + wacc) ^ length fcfs) = Inr (discounted_terminal wacc terminal_growth fcfs)"
    using nz by (simp only: py_div_def discounted_terminal_def if_False)
  show ?thesis
  proof (cases "shares_outstanding > 0")
    case True
    then have p: "py_div x shares_outstanding = Inr (x / shares_outstanding)" for x
      by (simp add: py_div_def)
    from True show ?thesis
      by (simp only: calculate_dcf_value_def s l terminal_value_Inr d p sum.case Let_def if_True)
  next
    case False
    then show ?thesis
      by (simp only: calculate_dcf_value_def s l terminal_value_Inr d sum.case Let_def if_False)
  qed
qed

text \<open>
  Claim C10, amended. For the empty projection list the DCF calculation faults with an
  index error. For a non-empty list it returns the present values, the enterprise value,
  the equity value and the value per share whenever the discount rate is not \<open>-1\<close>, and
  faults with a division by zero when the discount rate is \<open>-1\<close>.
\<close>

theorem dcf_value_domain:
  "calculate_dcf_value [] terminal_growth wacc net_debt shares_outstanding = Inl IndexError \<and>
   (fcfs \<noteq> [] \<and> wacc = - 1 \<longrightarrow>
      calculate_dcf_value fcfs terminal_growth wacc net_debt shares_outstanding
        = Inl ZeroDivisionError) \<and>
   (fcfs \<noteq> [] \<and> wacc \<noteq> - 1 \<longrightarrow>
      calculate_dcf_value fcfs terminal_growth wacc net_debt shares_outstanding =
        Inr \<lparr> intrinsic_value_per_share =
                (if shares_outstanding > 0
                 then (discounted_sum wacc fcfs + discounted_terminal wacc terminal_growth fcfs
                         - net_debt) / shares_outstanding
                 else 0),
              enterprise_value =
                discounted_sum wacc fcfs + discounted_terminal wacc terminal_growth fcfs,
              equity_value =
                discounted_sum wacc fcfs + discounted_terminal wacc terminal_growth fcfs - net_debt,
              pv_fcfs = discounted_sum wacc fcfs,
              pv_terminal = discounted_terminal wacc terminal_growth fcfs \<rparr>)"
  using dcf_empty dcf_fault dcf_ok by blast

text \<open>
  Claim C10 as stated fails: a non-empty projection list with the discount rate \<open>-1\<close>
  divides by \<open>(1 + wacc) ** 1 = 0\<close>.
\<close>

theorem dcf_zero_discount_counterexample:
  "[100::real] \<noteq> [] \<and> calculate_dcf_value [100] 0.02 (- 1) 0 1 = Inl ZeroDivisionError"
  by (simp add: calculate_dcf_value_def py_div_def)

text \<open>
  Claim C10, amended, at the one-year projection 105 with a growth rate of 2.5 percent,
  for the discount rates 10 percent and \<open>-1\<close>.
\<close>

theorem dcf_value_domain_witness:
  "[105::real] \<noteq> [] \<and> (0.10::real) \<noteq> - 1 \<and>
   calculate_dcf_value [105] 0.025 0.10 0 1 =
     Inr \<lparr> intrinsic_value_per_share = 1400, enterprise_value = 1400, equity_value = 1400,
           pv_fcfs = 105 / 1.1, pv_terminal = 1435 / 1.1 \<rparr> \<and>
   calculate_dcf_value [105] 0.025 (- 1) 0 1 = Inl ZeroDivisionError"
proof -
  have a: "[105::real] \<noteq> []" and b: "(0.10::real) \<noteq> - 1" by simp_all
  from dcf_value_domain [of "0.025" "0.10" 0 1 "[105]"] a b
  have "calculate_dcf_value [105] 0.025 0.10 0 1 =
        Inr \<lparr> intrinsic_value_per_share =
                (if (1::real) > 0
                 then (discounted_sum 0.10 [105] + discounted_terminal 0.10 0.025 [105] - 0) / 1
                 else 0),
              enterprise_value = discounted_sum 0.10 [105] + discounted_terminal 0.10 0.025 [105],
              equity_value = discounted_sum 0.10 [105] + discounted_terminal 0.10 0.025 [105] - 0,
              pv_fcfs = discounted_sum 0.10 [105],
              pv_terminal = discounted_terminal 0.10 0.025 [105] \<rparr>"
    by blast
  then have 1: "calculate_dcf_value [105] 0.025 0.10 0 1 =
     Inr \<lparr> intrinsic_value_per_share = 1400, enterprise_value = 1400, equity_value = 1400,
           pv_fcfs = 105 / 1.1, pv_terminal = 1435 / 1.1 \<rparr>"
    by (simp add: discounted_sum_def discounted_terminal_def)
  from dcf_value_domain [of "0.025" "- 1" 0 1 "[105]"] a
  have 2: "calculate_dcf_value [105] 0.025 (- 1) 0 1 = Inl ZeroDivisionError"
    by blast
  from a b 1 2 show ?thesis by blast
qed

subsection \<open>Monte Carlo aggregation\<close>












end
